theory Spec2Isabelle
  imports Complex_Main "HOL-Library.Word" "HOL-Library.AList"
begin

section \<open>Peer credentials of a local socket: \<open>native/peer_cred.cc\<close>\<close>

text \<open>
  The addon exports one function, \<open>GetPeerCred\<close>. It checks its JavaScript argument,
  converts it to a C \<open>int\<close>, and asks the kernel through \<open>getsockopt\<close> for the identity
  of the process at the other end of the socket. Which option it asks for is fixed when
  the file is compiled (\<open>#ifdef __linux__\<close>, \<open>#elif defined(__APPLE__)\<close>, \<open>#else\<close>).

  The embedding below keeps the three compile-time branches as a \<open>platform\<close> argument,
  the kernel as a record of what each socket option answers for each descriptor, and the
  process state the function can touch (the log of system calls issued and \<open>errno\<close>) as
  fields of the same record, passed in and returned.
\<close>

subsection \<open>C types\<close>

text \<open>
  \<open>int\<close>, \<open>pid_t\<close>, \<open>uid_t\<close> and \<open>gid_t\<close> are 32 bits wide on both supported systems.
  \<open>int\<close> and \<open>pid_t\<close> are signed (read with \<open>sint\<close>), \<open>uid_t\<close> and \<open>gid_t\<close> are unsigned
  (read with \<open>uint\<close>).
\<close>

type_synonym c_int = "32 word"
type_synonym pid_t = "32 word"
type_synonym uid_t = "32 word"
type_synonym gid_t = "32 word"
type_synonym errno_t = int

text \<open>\<open>struct ucred\<close> of Linux: pid, uid and gid in one structure.\<close>

record ucred =
  pid :: pid_t
  uid :: uid_t
  gid :: gid_t

text \<open>
  \<open>struct xucred\<close> of macOS and the BSDs: no pid; \<open>cr_groups\<close> is the fixed array
  \<open>gid_t cr_groups[NGROUPS]\<close> with \<open>NGROUPS = 16\<close>, of which the first \<open>cr_ngroups\<close>
  entries are meaningful.
\<close>

record xucred =
  cr_version :: "32 word"
  cr_uid :: uid_t
  cr_ngroups :: "16 word"
  cr_groups :: "gid_t list"

definition NGROUPS :: nat where
  "NGROUPS = 16"

text \<open>A kernel-filled \<open>xucred\<close> has all \<open>NGROUPS\<close> array slots, so index 0 is in range.\<close>

definition xucred_wf :: "xucred \<Rightarrow> bool" where
  "xucred_wf c = (length (cr_groups c) = NGROUPS)"

subsection \<open>JavaScript values\<close>

text \<open>
  A JavaScript number is an IEEE double: NaN, an infinity, or a finite value. Every
  finite double is a rational number, which is all the conversions below look at.
\<close>

datatype js_number = NaN | PosInf | NegInf | Finite rat

datatype napi_value =
    Napi_Undefined
  | Napi_Null
  | Napi_Boolean bool
  | Napi_Number js_number
  | Napi_String string
  | Napi_Object "(string \<times> napi_value) list"

text \<open>The two kinds of JavaScript exception the function throws, with their message.\<close>

datatype js_error = TypeError string | Error string

fun IsNumber :: "napi_value \<Rightarrow> bool" where
  "IsNumber (Napi_Number d) = True"
| "IsNumber v = False"

text \<open>
  \<open>Napi::Number::Int32Value\<close> belongs to the Node-API binding, not to this repository.
  It is modelled from the documented contract of \<open>napi_get_value_int32\<close> (ECMAScript
  ToInt32): NaN and the infinities give 0; a finite number is truncated towards zero
  and the result is reduced to its low 32 bits, read as a signed integer.
\<close>

definition trunc_toward_zero :: "rat \<Rightarrow> int" where
  "trunc_toward_zero q = (if q < 0 then - \<lfloor>- q\<rfloor> else \<lfloor>q\<rfloor>)"

fun Int32Value :: "js_number \<Rightarrow> c_int" where
  "Int32Value NaN = 0"
| "Int32Value PosInf = 0"
| "Int32Value NegInf = 0"
| "Int32Value (Finite q) = word_of_int (trunc_toward_zero q)"

text \<open>
  \<open>Napi::Number::New(env, static_cast<double>(x))\<close>: a 32-bit integer is exactly
  representable as a double. One function for the signed \<open>pid_t\<close>, one for the unsigned
  \<open>uid_t\<close> and \<open>gid_t\<close>.
\<close>

definition Number_of_signed :: "32 word \<Rightarrow> napi_value" where
  "Number_of_signed x = Napi_Number (Finite (of_int (sint x)))"

definition Number_of_unsigned :: "32 word \<Rightarrow> napi_value" where
  "Number_of_unsigned x = Napi_Number (Finite (of_int (uint x)))"

text \<open>\<open>Napi::Object::New\<close> and \<open>Napi::Object::Set\<close>: properties in insertion order.\<close>

definition Object_New :: napi_value where
  "Object_New = Napi_Object []"

fun Object_Set :: "napi_value \<Rightarrow> string \<Rightarrow> napi_value \<Rightarrow> napi_value" where
  "Object_Set (Napi_Object props) key v = Napi_Object (AList.update key v props)"
| "Object_Set other key v = other"

subsection \<open>The kernel and the process state\<close>

datatype sock_level = SOL_SOCKET | SOL_LOCAL

datatype sock_option = SO_PEERCRED | LOCAL_PEERCRED | LOCAL_PEEREPID

datatype syscall = Getsockopt c_int sock_level sock_option

text \<open>
  What one \<open>getsockopt\<close> call answers: it fails (returns \<open>-1\<close>, which is the
  \<open>< 0\<close> the source tests, and sets \<open>errno\<close>), or it returns \<open>0\<close> and has filled
  the caller's buffer.
\<close>

datatype 'a reply = Failed errno_t | Filled 'a

text \<open>
  The world the function runs in. The first three fields are the kernel-held peer
  credential state, per descriptor and per socket option; the function only reads them.
  \<open>errno\<close> and \<open>syscalls\<close> (the system calls issued so far, oldest first) are what a
  call can change.
\<close>

record world =
  so_peercred :: "c_int \<Rightarrow> ucred reply"
  local_peercred :: "c_int \<Rightarrow> xucred reply"
  local_peerepid :: "c_int \<Rightarrow> pid_t reply"
  errno :: errno_t
  syscalls :: "syscall list"

text \<open>
  \<open>getsockopt(fd, level, option, &buf, &len)\<close>. The call is logged; a failure stores
  its cause in \<open>errno\<close>. The answer is returned to the caller, who tests it.
\<close>

definition getsockopt ::
  "(world \<Rightarrow> c_int \<Rightarrow> 'a reply) \<Rightarrow> c_int \<Rightarrow> sock_level \<Rightarrow> sock_option \<Rightarrow> world
     \<Rightarrow> 'a reply \<times> world" where
  "getsockopt answer fd level opt w =
     (let w' = w\<lparr>syscalls := syscalls w @ [Getsockopt fd level opt]\<rparr>
      in case answer w fd of
           Failed e \<Rightarrow> (Failed e, w'\<lparr>errno := e\<rparr>)
         | Filled v \<Rightarrow> (Filled v, w'))"

text \<open>
  The out-buffer after a call whose return value is ignored: the kernel writes the
  option value on success and leaves the buffer as it was on failure.
\<close>

fun buffer_after :: "'a reply \<Rightarrow> 'a \<Rightarrow> 'a" where
  "buffer_after (Failed e) buf = buf"
| "buffer_after (Filled v) buf = v"

subsection \<open>\<open>GetPeerCred\<close>\<close>

datatype platform = Linux | Apple | Other

text \<open>
  The result of a call: \<open>Inl\<close> the JavaScript exception left pending by
  \<open>ThrowAsJavaScriptException\<close> (the \<open>env.Null()\<close> returned with it is discarded by the
  runtime), \<open>Inr\<close> the value returned.
\<close>

type_synonym outcome = "(js_error + napi_value) \<times> world"

text \<open>The \<open>#ifdef __linux__\<close> branch, lines 25 to 35.\<close>

definition GetPeerCred_linux :: "c_int \<Rightarrow> world \<Rightarrow> outcome" where
  "GetPeerCred_linux fd w =
     (case getsockopt so_peercred fd SOL_SOCKET SO_PEERCRED w of
        (Failed e, w1) \<Rightarrow> (Inl (Error ''getsockopt(SO_PEERCRED) failed''), w1)
      | (Filled cred, w1) \<Rightarrow>
          (let result = Object_New;
               result = Object_Set result ''pid'' (Number_of_signed (pid cred));
               result = Object_Set result ''uid'' (Number_of_unsigned (uid cred));
               result = Object_Set result ''gid'' (Number_of_unsigned (gid cred))
           in (Inr result, w1)))"

text \<open>
  The \<open>#elif defined(__APPLE__)\<close> branch, lines 38 to 54. The second query's return
  value is not tested; \<open>pid\<close> starts at 0.
\<close>

definition GetPeerCred_apple :: "c_int \<Rightarrow> world \<Rightarrow> outcome" where
  "GetPeerCred_apple fd w =
     (case getsockopt local_peercred fd SOL_LOCAL LOCAL_PEERCRED w of
        (Failed e, w1) \<Rightarrow> (Inl (Error ''getsockopt(LOCAL_PEERCRED) failed''), w1)
      | (Filled cred, w1) \<Rightarrow>
          (let pid0 = (0 :: pid_t);
               (r2, w2) = getsockopt local_peerepid fd SOL_LOCAL LOCAL_PEEREPID w1;
               pid1 = buffer_after r2 pid0;
               result = Object_New;
               result = Object_Set result ''pid'' (Number_of_signed pid1);
               result = Object_Set result ''uid'' (Number_of_unsigned (cr_uid cred));
               result = Object_Set result ''gid'' (Number_of_unsigned (cr_groups cred ! 0))
           in (Inr result, w2)))"

text \<open>The \<open>#else\<close> branch, lines 57 and 58.\<close>

definition GetPeerCred_other :: "c_int \<Rightarrow> world \<Rightarrow> outcome" where
  "GetPeerCred_other fd w = (Inl (Error ''Unsupported platform''), w)"

text \<open>
  \<open>As<Napi::Number>()\<close> is an unchecked cast; the function reaches it only behind
  \<open>IsNumber\<close>, so the second equation is never used by \<open>GetPeerCred\<close>.
\<close>

fun As_Number :: "napi_value \<Rightarrow> js_number" where
  "As_Number (Napi_Number d) = d"
| "As_Number v = NaN"

definition GetPeerCred :: "platform \<Rightarrow> napi_value list \<Rightarrow> world \<Rightarrow> outcome" where
  "GetPeerCred plat info w =
     (if length info < 1 \<or> \<not> IsNumber (info ! 0)
      then (Inl (TypeError ''Expected fd as number''), w)
      else
        (let fd = Int32Value (As_Number (info ! 0))
         in case plat of
              Linux \<Rightarrow> GetPeerCred_linux fd w
            | Apple \<Rightarrow> GetPeerCred_apple fd w
            | Other \<Rightarrow> GetPeerCred_other fd w))"

text \<open>The system calls a call issued: what it appended to the log.\<close>

definition issued :: "world \<Rightarrow> outcome \<Rightarrow> syscall list" where
  "issued w out = drop (length (syscalls w)) (syscalls (snd out))"

subsection \<open>Example worlds\<close>

text \<open>
  Causes of failure, with their Linux numbers; the proofs only need them distinct.
\<close>

definition EBADF :: errno_t where "EBADF = 9"
definition ENOTSOCK :: errno_t where "ENOTSOCK = 88"
definition ENOPROTOOPT :: errno_t where "ENOPROTOOPT = 92"
definition ENOTCONN :: errno_t where "ENOTCONN = 107"

text \<open>The peer of the specification's scenario: pid 4242, uid 1000, gid 1000.\<close>

definition peer_ucred :: ucred where
  "peer_ucred = \<lparr>pid = 4242, uid = 1000, gid = 1000\<rparr>"

text \<open>The same peer as macOS reports it: three groups, 20 at the head.\<close>

definition peer_xucred :: xucred where
  "peer_xucred = \<lparr>cr_version = 0, cr_uid = 1000, cr_ngroups = 3,
     cr_groups = [20, 12, 1000, 0, 0, 0, 0, 0, 0, 0, 0, 0, 0, 0, 0, 0]\<rparr>"

text \<open>Descriptor 5 is a connected local socket; no other descriptor is open.\<close>

definition world_connected :: world where
  "world_connected =
     \<lparr>so_peercred = (\<lambda>fd. if fd = 5 then Filled peer_ucred else Failed EBADF),
      local_peercred = (\<lambda>fd. if fd = 5 then Filled peer_xucred else Failed EBADF),
      local_peerepid = (\<lambda>fd. if fd = 5 then Filled 4242 else Failed EBADF),
      errno = 0,
      syscalls = []\<rparr>"

text \<open>The same, on a kernel that does not know \<open>LOCAL_PEEREPID\<close>.\<close>

definition world_no_epid :: world where
  "world_no_epid =
     \<lparr>so_peercred = (\<lambda>fd. if fd = 5 then Filled peer_ucred else Failed EBADF),
      local_peercred = (\<lambda>fd. if fd = 5 then Filled peer_xucred else Failed EBADF),
      local_peerepid = (\<lambda>fd. if fd = 5 then Failed ENOPROTOOPT else Failed EBADF),
      errno = 0,
      syscalls = []\<rparr>"

text \<open>No descriptor is open.\<close>

definition world_closed :: world where
  "world_closed =
     \<lparr>so_peercred = (\<lambda>fd. Failed EBADF),
      local_peercred = (\<lambda>fd. Failed EBADF),
      local_peerepid = (\<lambda>fd. Failed EBADF),
      errno = 0,
      syscalls = []\<rparr>"

text \<open>Descriptor 5 is a regular file.\<close>

definition world_not_socket :: world where
  "world_not_socket =
     \<lparr>so_peercred = (\<lambda>fd. if fd = 5 then Failed ENOTSOCK else Failed EBADF),
      local_peercred = (\<lambda>fd. if fd = 5 then Failed ENOTSOCK else Failed EBADF),
      local_peerepid = (\<lambda>fd. if fd = 5 then Failed ENOTSOCK else Failed EBADF),
      errno = 0,
      syscalls = []\<rparr>"

text \<open>
  Descriptor 5 refuses the credential query but would answer the pid query: the world
  in which a pid lookup could be mistaken for a way to rescue the call.
\<close>

definition world_pid_only :: world where
  "world_pid_only =
     \<lparr>so_peercred = (\<lambda>fd. if fd = 5 then Failed ENOTCONN else Failed EBADF),
      local_peercred = (\<lambda>fd. if fd = 5 then Failed ENOTCONN else Failed EBADF),
      local_peerepid = (\<lambda>fd. if fd = 5 then Filled 4242 else Failed EBADF),
      errno = 0,
      syscalls = []\<rparr>"

text \<open>Reading a property back, as the JavaScript caller does.\<close>

fun Object_Get :: "napi_value \<Rightarrow> string \<Rightarrow> napi_value option" where
  "Object_Get (Napi_Object props) key = map_of props key"
| "Object_Get other key = None"

definition property :: "outcome \<Rightarrow> string \<Rightarrow> napi_value option" where
  "property out key = (case fst out of Inl err \<Rightarrow> None | Inr v \<Rightarrow> Object_Get v key)"

text \<open>
  The shape the specification gives a success result: an object with the three
  properties pid, uid and gid and no other, the pid a signed 32-bit integer, uid and gid
  integers from 0 to 2^32 - 1.
\<close>

fun is_integer_between :: "int \<Rightarrow> int \<Rightarrow> napi_value \<Rightarrow> bool" where
  "is_integer_between lo hi (Napi_Number (Finite q)) =
     (of_int \<lfloor>q\<rfloor> = q \<and> of_int lo \<le> q \<and> q \<le> of_int hi)"
| "is_integer_between lo hi v = False"

fun is_credential_record :: "napi_value \<Rightarrow> bool" where
  "is_credential_record (Napi_Object [(k1, p), (k2, u), (k3, g)]) =
     (k1 = ''pid'' \<and> k2 = ''uid'' \<and> k3 = ''gid''
      \<and> is_integer_between (- (2 ^ 31)) (2 ^ 31 - 1) p
      \<and> is_integer_between 0 (2 ^ 32 - 1) u
      \<and> is_integer_between 0 (2 ^ 32 - 1) g)"
| "is_credential_record v = False"

text \<open>The same connection later in the life of the process: other \<open>errno\<close>, longer log.\<close>

definition world_connected_later :: world where
  "world_connected_later =
     world_connected\<lparr>errno := ENOTSOCK, syscalls := [Getsockopt 7 SOL_SOCKET SO_PEERCRED]\<rparr>"

text \<open>The descriptor a logged system call was made on.\<close>

fun syscall_fd :: "syscall \<Rightarrow> c_int" where
  "syscall_fd (Getsockopt fd level opt) = fd"

section \<open>Properties\<close>

subsection \<open>How the function unfolds\<close>

text \<open>The descriptor of the example worlds, as the coercion delivers it.\<close>

lemma Int32Value_5: "Int32Value (Finite 5) = 5"
  by code_simp

lemma GetPeerCred_invalid:
  assumes "info = [] \<or> \<not> IsNumber (info ! 0)"
  shows "GetPeerCred plat info w = (Inl (TypeError ''Expected fd as number''), w)"
  using assms by (auto simp: GetPeerCred_def)

lemma GetPeerCred_numeric:
  "GetPeerCred plat (Napi_Number d # rest) w =
     (case plat of
        Linux \<Rightarrow> GetPeerCred_linux (Int32Value d) w
      | Apple \<Rightarrow> GetPeerCred_apple (Int32Value d) w
      | Other \<Rightarrow> GetPeerCred_other (Int32Value d) w)"
  by (simp add: GetPeerCred_def Let_def)

lemma linux_failed:
  assumes "so_peercred w fd = Failed e"
  shows "GetPeerCred_linux fd w =
    (Inl (Error ''getsockopt(SO_PEERCRED) failed''),
     w\<lparr>syscalls := syscalls w @ [Getsockopt fd SOL_SOCKET SO_PEERCRED], errno := e\<rparr>)"
  using assms by (simp add: GetPeerCred_linux_def getsockopt_def Let_def)

lemma linux_filled:
  assumes "so_peercred w fd = Filled cred"
  shows "GetPeerCred_linux fd w =
    (Inr (Napi_Object [(''pid'', Number_of_signed (pid cred)),
                       (''uid'', Number_of_unsigned (uid cred)),
                       (''gid'', Number_of_unsigned (gid cred))]),
     w\<lparr>syscalls := syscalls w @ [Getsockopt fd SOL_SOCKET SO_PEERCRED]\<rparr>)"
  using assms by (simp add: GetPeerCred_linux_def getsockopt_def Object_New_def Let_def)

lemma apple_failed:
  assumes "local_peercred w fd = Failed e"
  shows "GetPeerCred_apple fd w =
    (Inl (Error ''getsockopt(LOCAL_PEERCRED) failed''),
     w\<lparr>syscalls := syscalls w @ [Getsockopt fd SOL_LOCAL LOCAL_PEERCRED], errno := e\<rparr>)"
  using assms by (simp add: GetPeerCred_apple_def getsockopt_def Let_def)

lemma apple_filled_result:
  assumes "local_peercred w fd = Filled cred"
  shows "fst (GetPeerCred_apple fd w) =
    Inr (Napi_Object [(''pid'', Number_of_signed (buffer_after (local_peerepid w fd) 0)),
                      (''uid'', Number_of_unsigned (cr_uid cred)),
                      (''gid'', Number_of_unsigned (cr_groups cred ! 0))])"
  using assms
  by (simp add: GetPeerCred_apple_def getsockopt_def Object_New_def Let_def split: reply.split)

lemma apple_filled_syscalls:
  assumes "local_peercred w fd = Filled cred"
  shows "syscalls (snd (GetPeerCred_apple fd w)) =
    syscalls w @ [Getsockopt fd SOL_LOCAL LOCAL_PEERCRED, Getsockopt fd SOL_LOCAL LOCAL_PEEREPID]"
  using assms
  by (simp add: GetPeerCred_apple_def getsockopt_def Object_New_def Let_def split: reply.split)

lemma issued_append:
  assumes "syscalls (snd out) = syscalls w @ calls"
  shows "issued w out = calls"
  using assms by (simp add: issued_def)

text \<open>A call reads the kernel's credential state and leaves it as it was.\<close>

lemma getsockopt_kernel_unchanged:
  assumes "getsockopt answer fd level opt w = (r, w')"
  shows "so_peercred w' = so_peercred w \<and> local_peercred w' = local_peercred w
    \<and> local_peerepid w' = local_peerepid w"
  using assms by (auto simp: getsockopt_def Let_def split: reply.splits)

lemma GetPeerCred_kernel_unchanged:
  "so_peercred (snd (GetPeerCred plat info w)) = so_peercred w
   \<and> local_peercred (snd (GetPeerCred plat info w)) = local_peercred w
   \<and> local_peerepid (snd (GetPeerCred plat info w)) = local_peerepid w"
  by (cases plat)
     (auto simp: GetPeerCred_def GetPeerCred_linux_def GetPeerCred_apple_def
        GetPeerCred_other_def getsockopt_def Let_def split: reply.splits)

text \<open>What a call returns is decided by the kernel's answers for its descriptor alone.\<close>

lemma result_depends_on_kernel:
  assumes "so_peercred w' (Int32Value (As_Number (info ! 0)))
             = so_peercred w (Int32Value (As_Number (info ! 0)))"
    and "local_peercred w' (Int32Value (As_Number (info ! 0)))
             = local_peercred w (Int32Value (As_Number (info ! 0)))"
    and "local_peerepid w' (Int32Value (As_Number (info ! 0)))
             = local_peerepid w (Int32Value (As_Number (info ! 0)))"
  shows "fst (GetPeerCred plat info w') = fst (GetPeerCred plat info w)"
  using assms
  by (cases plat)
     (auto simp: GetPeerCred_def GetPeerCred_linux_def GetPeerCred_apple_def
        GetPeerCred_other_def getsockopt_def Let_def split: reply.splits)

lemma valid_argument_shape:
  assumes "\<not> (info = [] \<or> \<not> IsNumber (info ! 0))"
  shows "\<exists>d rest. info = Napi_Number d # rest"
proof (cases info)
  case Nil
  with assms show ?thesis by simp
next
  case (Cons v rest)
  with assms have "IsNumber v" by simp
  then obtain d where "v = Napi_Number d" by (cases v) simp_all
  with Cons show ?thesis by simp
qed

lemma credential_record_built:
  "is_credential_record
     (Napi_Object [(''pid'', Number_of_signed p),
                   (''uid'', Number_of_unsigned u),
                   (''gid'', Number_of_unsigned g)])"
proof -
  have lo: "- (2 ^ 31) \<le> sint p" using sint_ge [of p] by simp
  have hi: "sint p \<le> 2 ^ 31 - 1" using sint_lt [of p] by simp
  have up: "\<And>x :: 32 word. uint x \<le> 2 ^ 32 - 1"
  proof -
    fix x :: "32 word"
    show "uint x \<le> 2 ^ 32 - 1" using uint_lt2p [of x] by simp
  qed
  have "is_integer_between (- (2 ^ 31)) (2 ^ 31 - 1) (Number_of_signed p)"
    unfolding Number_of_signed_def is_integer_between.simps
    using lo hi by (simp only: floor_of_int of_int_le_iff simp_thms)
  moreover have "is_integer_between 0 (2 ^ 32 - 1) (Number_of_unsigned u)"
    unfolding Number_of_unsigned_def is_integer_between.simps
    using up [of u] uint_ge_0 [of u] by (simp only: floor_of_int of_int_le_iff simp_thms)
  moreover have "is_integer_between 0 (2 ^ 32 - 1) (Number_of_unsigned g)"
    unfolding Number_of_unsigned_def is_integer_between.simps
    using up [of g] uint_ge_0 [of g] by (simp only: floor_of_int of_int_le_iff simp_thms)
  ultimately show ?thesis by simp
qed

subsection \<open>Argument validation\<close>

text \<open>
  C4. When the descriptor argument is absent (\<open>info\<close> is empty) or is not a number, the
  call throws the \<open>TypeError\<close> "Expected fd as number" (the specification's InvalidInput)
  on every platform, issues no system call, and leaves the world as it found it.
\<close>

theorem invalid_argument_no_syscall:
  assumes "info = [] \<or> \<not> IsNumber (info ! 0)"
  shows "fst (GetPeerCred plat info w) = Inl (TypeError ''Expected fd as number'')
    \<and> issued w (GetPeerCred plat info w) = []
    \<and> snd (GetPeerCred plat info w) = w"
  using assms by (simp add: GetPeerCred_invalid issued_def)

theorem invalid_argument_no_syscall_witness:
  "\<not> IsNumber ([Napi_String ''5''] ! 0)
   \<and> fst (GetPeerCred Linux [Napi_String ''5''] world_connected)
       = Inl (TypeError ''Expected fd as number'')
   \<and> issued world_connected (GetPeerCred Linux [Napi_String ''5''] world_connected) = []
   \<and> fst (GetPeerCred Apple [] world_connected) = Inl (TypeError ''Expected fd as number'')
   \<and> issued world_connected (GetPeerCred Apple [] world_connected) = []
   \<and> fst (GetPeerCred Other [Napi_Undefined] world_connected)
       = Inl (TypeError ''Expected fd as number'')"
proof -
  have h1: "[Napi_String ''5''] = [] \<or> \<not> IsNumber ([Napi_String ''5''] ! 0)" by simp
  have h2: "([] :: napi_value list) = [] \<or> \<not> IsNumber ([] ! 0)" by simp
  have h3: "[Napi_Undefined] = [] \<or> \<not> IsNumber ([Napi_Undefined] ! 0)" by simp
  show ?thesis
    using invalid_argument_no_syscall [OF h1, of Linux world_connected]
      invalid_argument_no_syscall [OF h2, of Apple world_connected]
      invalid_argument_no_syscall [OF h3, of Other world_connected]
    by simp
qed

text \<open>
  C10. A numeric argument is never rejected by the validation, whatever number it is:
  the call does not throw the \<open>TypeError\<close>; every system call it issues is made on the
  descriptor \<open>Int32Value d\<close>; and on the two supported platforms it does issue one. The
  coercion truncates: 3.7 becomes descriptor 3, -3.7 becomes -3, NaN and the infinities
  become 0, -1 stays -1, and 2^32 + 5 wraps to 5.
\<close>

theorem numeric_argument_coerced:
  "fst (GetPeerCred plat (Napi_Number d # rest) w) \<noteq> Inl (TypeError ''Expected fd as number'')
   \<and> (\<forall>c \<in> set (issued w (GetPeerCred plat (Napi_Number d # rest) w)).
         syscall_fd c = Int32Value d)
   \<and> (plat \<noteq> Other \<longrightarrow> issued w (GetPeerCred plat (Napi_Number d # rest) w) \<noteq> [])
   \<and> sint (Int32Value (Finite (37 / 10))) = 3
   \<and> sint (Int32Value (Finite (- 37 / 10))) = - 3
   \<and> sint (Int32Value NaN) = 0
   \<and> sint (Int32Value PosInf) = 0
   \<and> sint (Int32Value (Finite (- 1))) = - 1
   \<and> sint (Int32Value (Finite (4294967301))) = 5"
proof -
  let ?out = "GetPeerCred plat (Napi_Number d # rest) w"
  let ?fd = "Int32Value d"
  have branch: "fst ?out \<noteq> Inl (TypeError ''Expected fd as number'')
      \<and> (\<forall>c \<in> set (issued w ?out). syscall_fd c = ?fd)
      \<and> (plat \<noteq> Other \<longrightarrow> issued w ?out \<noteq> [])"
  proof (cases plat)
    case Linux
    show ?thesis
    proof (cases "so_peercred w ?fd")
      case (Failed e)
      then show ?thesis
        by (simp add: Linux GetPeerCred_numeric linux_failed issued_def)
    next
      case (Filled cred)
      then show ?thesis
        by (simp add: Linux GetPeerCred_numeric linux_filled issued_def)
    qed
  next
    case Apple
    show ?thesis
    proof (cases "local_peercred w ?fd")
      case (Failed e)
      then show ?thesis
        by (simp add: Apple GetPeerCred_numeric apple_failed issued_def)
    next
      case (Filled cred)
      then show ?thesis
        by (simp add: Apple GetPeerCred_numeric apple_filled_result
            issued_append [OF apple_filled_syscalls])
    qed
  next
    case Other
    then show ?thesis
      by (simp add: GetPeerCred_numeric GetPeerCred_other_def issued_def)
  qed
  have v1: "sint (Int32Value (Finite (37 / 10))) = 3" by code_simp
  have v2: "sint (Int32Value (Finite (- 37 / 10))) = - 3" by code_simp
  have v3: "sint (Int32Value NaN) = 0" by simp
  have v4: "sint (Int32Value PosInf) = 0" by simp
  have v5: "sint (Int32Value (Finite (- 1))) = - 1" by code_simp
  have v6: "sint (Int32Value (Finite (4294967301))) = 5" by code_simp
  from branch v1 v2 v3 v4 v5 v6 show ?thesis by blast
qed

theorem numeric_argument_coerced_witness:
  "Linux \<noteq> Other
   \<and> fst (GetPeerCred Linux [Napi_Number (Finite (53 / 10))] world_connected)
       \<noteq> Inl (TypeError ''Expected fd as number'')
   \<and> issued world_connected (GetPeerCred Linux [Napi_Number (Finite (53 / 10))] world_connected)
       \<noteq> []
   \<and> map syscall_fd
         (issued world_connected
            (GetPeerCred Linux [Napi_Number (Finite (53 / 10))] world_connected)) = [5]
   \<and> issued world_connected (GetPeerCred Linux [Napi_Number (Finite (53 / 10))] world_connected)
       = [Getsockopt 5 SOL_SOCKET SO_PEERCRED]"
proof -
  have fd: "Int32Value (Finite (53 / 10)) = 5" by code_simp
  have run: "issued world_connected
      (GetPeerCred Linux [Napi_Number (Finite (53 / 10))] world_connected)
       = [Getsockopt 5 SOL_SOCKET SO_PEERCRED]" by code_simp
  show ?thesis
    using numeric_argument_coerced [of Linux "Finite (53 / 10)" "[]" world_connected] fd run
    by simp
qed

subsection \<open>The combined-credential branch (Linux)\<close>

text \<open>
  C2. On Linux a call with a numeric descriptor issues exactly one system call,
  \<open>getsockopt(fd, SOL_SOCKET, SO_PEERCRED)\<close>. If it fails, the call throws the
  \<open>Error\<close> "getsockopt(SO_PEERCRED) failed" (the specification's QueryFailed) and returns
  no record. If it succeeds, the record's pid, uid and gid are the values of the
  structure's \<open>pid\<close>, \<open>uid\<close> and \<open>gid\<close> fields, unchanged.
\<close>

theorem linux_one_query:
  "(so_peercred w (Int32Value d) = Failed e \<longrightarrow>
      fst (GetPeerCred Linux (Napi_Number d # rest) w)
        = Inl (Error ''getsockopt(SO_PEERCRED) failed''))
   \<and> (so_peercred w (Int32Value d) = Filled cred \<longrightarrow>
      fst (GetPeerCred Linux (Napi_Number d # rest) w)
        = Inr (Napi_Object
            [(''pid'', Napi_Number (Finite (of_int (sint (pid cred))))),
             (''uid'', Napi_Number (Finite (of_int (uint (uid cred))))),
             (''gid'', Napi_Number (Finite (of_int (uint (gid cred)))))]))
   \<and> issued w (GetPeerCred Linux (Napi_Number d # rest) w)
        = [Getsockopt (Int32Value d) SOL_SOCKET SO_PEERCRED]"
proof (cases "so_peercred w (Int32Value d)")
  case (Failed e')
  then show ?thesis
    by (simp add: GetPeerCred_numeric linux_failed issued_def)
next
  case (Filled cred')
  then show ?thesis
    by (simp add: GetPeerCred_numeric linux_filled issued_def
        Number_of_signed_def Number_of_unsigned_def)
qed

theorem linux_one_query_witness:
  "so_peercred world_connected (Int32Value (Finite 5)) = Filled peer_ucred
   \<and> fst (GetPeerCred Linux [Napi_Number (Finite 5)] world_connected)
       = Inr (Napi_Object
           [(''pid'', Napi_Number (Finite 4242)),
            (''uid'', Napi_Number (Finite 1000)),
            (''gid'', Napi_Number (Finite 1000))])
   \<and> issued world_connected (GetPeerCred Linux [Napi_Number (Finite 5)] world_connected)
       = [Getsockopt 5 SOL_SOCKET SO_PEERCRED]
   \<and> so_peercred world_closed (Int32Value (Finite 5)) = Failed EBADF
   \<and> fst (GetPeerCred Linux [Napi_Number (Finite 5)] world_closed)
       = Inl (Error ''getsockopt(SO_PEERCRED) failed'')
   \<and> issued world_closed (GetPeerCred Linux [Napi_Number (Finite 5)] world_closed)
       = [Getsockopt 5 SOL_SOCKET SO_PEERCRED]"
proof -
  have ok: "so_peercred world_connected (Int32Value (Finite 5)) = Filled peer_ucred"
    by (simp add: Int32Value_5 world_connected_def del: Int32Value.simps)
  have bad: "so_peercred world_closed (Int32Value (Finite 5)) = Failed EBADF"
    by (simp add: world_closed_def)
  show ?thesis
    using linux_one_query [of world_connected "Finite 5" 0 "[]" peer_ucred]
      linux_one_query [of world_closed "Finite 5" EBADF "[]" peer_ucred] ok bad
    by (simp add: Int32Value_5 peer_ucred_def del: Int32Value.simps)
qed

subsection \<open>The split-credential branch (macOS)\<close>

text \<open>
  C5. On macOS, when the mandatory query \<open>getsockopt(fd, SOL_LOCAL, LOCAL_PEERCRED)\<close>
  fails, the call throws the \<open>Error\<close> "getsockopt(LOCAL_PEERCRED) failed" (QueryFailed),
  returns no record, and has issued that one system call only: \<open>LOCAL_PEEREPID\<close> is not
  asked, whatever it would have answered.
\<close>

theorem apple_mandatory_query_failure:
  assumes "local_peercred w (Int32Value d) = Failed e"
  shows "fst (GetPeerCred Apple (Napi_Number d # rest) w)
           = Inl (Error ''getsockopt(LOCAL_PEERCRED) failed'')
    \<and> issued w (GetPeerCred Apple (Napi_Number d # rest) w)
           = [Getsockopt (Int32Value d) SOL_LOCAL LOCAL_PEERCRED]"
  using assms by (simp add: GetPeerCred_numeric apple_failed issued_def)

theorem apple_mandatory_query_failure_witness:
  "local_peercred world_pid_only (Int32Value (Finite 5)) = Failed ENOTCONN
   \<and> local_peerepid world_pid_only (Int32Value (Finite 5)) = Filled 4242
   \<and> fst (GetPeerCred Apple [Napi_Number (Finite 5)] world_pid_only)
       = Inl (Error ''getsockopt(LOCAL_PEERCRED) failed'')
   \<and> issued world_pid_only (GetPeerCred Apple [Napi_Number (Finite 5)] world_pid_only)
       = [Getsockopt 5 SOL_LOCAL LOCAL_PEERCRED]"
proof -
  have h: "local_peercred world_pid_only (Int32Value (Finite 5)) = Failed ENOTCONN"
    by (simp add: Int32Value_5 world_pid_only_def del: Int32Value.simps)
  have p: "local_peerepid world_pid_only (Int32Value (Finite 5)) = Filled 4242"
    by (simp add: Int32Value_5 world_pid_only_def del: Int32Value.simps)
  show ?thesis
    using apple_mandatory_query_failure [OF h, of "[]"] h p
    by (simp add: Int32Value_5 del: Int32Value.simps)
qed

text \<open>
  C1. On macOS, when the mandatory query has filled a credential structure and the second
  query, for the peer's pid, fails, the call does not throw: it returns a record whose
  pid is 0 (the value \<open>pid\<close> was initialised to, the failed call having left the buffer
  alone), whose uid is the structure's \<open>cr_uid\<close> and whose gid is \<open>cr_groups[0]\<close>.
\<close>

theorem apple_pid_query_failure_tolerated:
  assumes "local_peercred w (Int32Value d) = Filled cred"
    and "xucred_wf cred"
    and "local_peerepid w (Int32Value d) = Failed e"
  shows "fst (GetPeerCred Apple (Napi_Number d # rest) w)
           = Inr (Napi_Object
               [(''pid'', Napi_Number (Finite 0)),
                (''uid'', Number_of_unsigned (cr_uid cred)),
                (''gid'', Number_of_unsigned (cr_groups cred ! 0))])"
  using assms(1,3)
  by (simp add: GetPeerCred_numeric apple_filled_result Number_of_signed_def)

theorem apple_pid_query_failure_tolerated_witness:
  "local_peercred world_no_epid (Int32Value (Finite 5)) = Filled peer_xucred
   \<and> xucred_wf peer_xucred
   \<and> local_peerepid world_no_epid (Int32Value (Finite 5)) = Failed ENOPROTOOPT
   \<and> fst (GetPeerCred Apple [Napi_Number (Finite 5)] world_no_epid)
       = Inr (Napi_Object
           [(''pid'', Napi_Number (Finite 0)),
            (''uid'', Napi_Number (Finite 1000)),
            (''gid'', Napi_Number (Finite 20))])"
proof -
  have h1: "local_peercred world_no_epid (Int32Value (Finite 5)) = Filled peer_xucred"
    by (simp add: Int32Value_5 world_no_epid_def del: Int32Value.simps)
  have h2: "xucred_wf peer_xucred"
    by (simp add: xucred_wf_def peer_xucred_def NGROUPS_def)
  have h3: "local_peerepid world_no_epid (Int32Value (Finite 5)) = Failed ENOPROTOOPT"
    by (simp add: Int32Value_5 world_no_epid_def del: Int32Value.simps)
  show ?thesis
    using apple_pid_query_failure_tolerated [OF h1 h2 h3, of "[]"] h1 h2 h3
    by (simp add: Int32Value_5 Number_of_unsigned_def peer_xucred_def del: Int32Value.simps)
qed

text \<open>
  C7. On macOS, whenever the mandatory query has filled a credential structure, the call
  returns a record whose uid is the structure's \<open>cr_uid\<close> and whose gid is the entry at
  index 0 of its group array, which exists and is the array's head. Nothing else of the
  group list is looked at: the peer below has gid 1000 in third place and is reported
  with gid 20.
\<close>

theorem apple_uid_and_first_group:
  assumes "local_peercred w (Int32Value d) = Filled cred"
    and "xucred_wf cred"
  shows "property (GetPeerCred Apple (Napi_Number d # rest) w) ''uid''
           = Some (Number_of_unsigned (cr_uid cred))
    \<and> property (GetPeerCred Apple (Napi_Number d # rest) w) ''gid''
           = Some (Number_of_unsigned (cr_groups cred ! 0))
    \<and> 0 < length (cr_groups cred)
    \<and> cr_groups cred ! 0 = hd (cr_groups cred)"
proof -
  from assms(2) have len: "0 < length (cr_groups cred)"
    by (simp add: xucred_wf_def NGROUPS_def)
  then have head: "cr_groups cred ! 0 = hd (cr_groups cred)"
    by (simp add: hd_conv_nth)
  from assms(1) have
    "property (GetPeerCred Apple (Napi_Number d # rest) w) ''uid''
       = Some (Number_of_unsigned (cr_uid cred))"
    "property (GetPeerCred Apple (Napi_Number d # rest) w) ''gid''
       = Some (Number_of_unsigned (cr_groups cred ! 0))"
    by (simp_all add: property_def GetPeerCred_numeric apple_filled_result)
  with len head show ?thesis by simp
qed

theorem apple_uid_and_first_group_witness:
  "local_peercred world_connected (Int32Value (Finite 5)) = Filled peer_xucred
   \<and> xucred_wf peer_xucred
   \<and> cr_groups peer_xucred = [20, 12, 1000, 0, 0, 0, 0, 0, 0, 0, 0, 0, 0, 0, 0, 0]
   \<and> property (GetPeerCred Apple [Napi_Number (Finite 5)] world_connected) ''uid''
       = Some (Napi_Number (Finite 1000))
   \<and> property (GetPeerCred Apple [Napi_Number (Finite 5)] world_connected) ''gid''
       = Some (Napi_Number (Finite 20))"
proof -
  have h1: "local_peercred world_connected (Int32Value (Finite 5)) = Filled peer_xucred"
    by (simp add: Int32Value_5 world_connected_def del: Int32Value.simps)
  have h2: "xucred_wf peer_xucred"
    by (simp add: xucred_wf_def peer_xucred_def NGROUPS_def)
  show ?thesis
    using apple_uid_and_first_group [OF h1 h2, of "[]"] h1 h2
    by (simp add: Int32Value_5 Number_of_unsigned_def peer_xucred_def del: Int32Value.simps)
qed

subsection \<open>The result\<close>

text \<open>
  C8. Whatever the platform, the arguments and the world, a value returned as success is
  an object with exactly the three properties pid, uid and gid, all three set, with uid
  and gid non-negative integers (and pid a signed 32-bit integer). No call succeeds with
  fewer properties.
\<close>

theorem success_is_full_record:
  assumes "fst (GetPeerCred plat info w) = Inr v"
  shows "is_credential_record v"
proof (cases "info = [] \<or> \<not> IsNumber (info ! 0)")
  case True
  from GetPeerCred_invalid [OF True] assms show ?thesis by simp
next
  case False
  then obtain d rest where info: "info = Napi_Number d # rest"
    using valid_argument_shape by blast
  show ?thesis
  proof (cases plat)
    case Linux
    show ?thesis
    proof (cases "so_peercred w (Int32Value d)")
      case (Failed e)
      with assms show ?thesis
        by (simp add: info Linux GetPeerCred_numeric linux_failed)
    next
      case (Filled cred)
      with assms credential_record_built [of "pid cred" "uid cred" "gid cred"]
      show ?thesis
        by (auto simp: info Linux GetPeerCred_numeric linux_filled)
    qed
  next
    case Apple
    show ?thesis
    proof (cases "local_peercred w (Int32Value d)")
      case (Failed e)
      with assms show ?thesis
        by (simp add: info Apple GetPeerCred_numeric apple_failed)
    next
      case (Filled cred)
      with assms
        credential_record_built [of "buffer_after (local_peerepid w (Int32Value d)) 0"
          "cr_uid cred" "cr_groups cred ! 0"]
      show ?thesis
        by (auto simp: info Apple GetPeerCred_numeric apple_filled_result)
    qed
  next
    case Other
    with assms show ?thesis
      by (simp add: info GetPeerCred_numeric GetPeerCred_other_def)
  qed
qed

theorem success_is_full_record_witness:
  "fst (GetPeerCred Apple [Napi_Number (Finite 5)] world_no_epid)
     = Inr (Napi_Object
         [(''pid'', Napi_Number (Finite 0)),
          (''uid'', Napi_Number (Finite 1000)),
          (''gid'', Napi_Number (Finite 20))])
   \<and> is_credential_record
       (Napi_Object
         [(''pid'', Napi_Number (Finite 0)),
          (''uid'', Napi_Number (Finite 1000)),
          (''gid'', Napi_Number (Finite 20))])
   \<and> \<not> is_credential_record
       (Napi_Object [(''uid'', Napi_Number (Finite 1000)), (''gid'', Napi_Number (Finite 20))])"
proof -
  have run: "fst (GetPeerCred Apple [Napi_Number (Finite 5)] world_no_epid)
     = Inr (Napi_Object
         [(''pid'', Napi_Number (Finite 0)),
          (''uid'', Napi_Number (Finite 1000)),
          (''gid'', Napi_Number (Finite 20))])"
    by code_simp
  have partial: "\<not> is_credential_record
       (Napi_Object [(''uid'', Napi_Number (Finite 1000)), (''gid'', Napi_Number (Finite 20))])"
    by simp
  from success_is_full_record [OF run] run partial show ?thesis by blast
qed

text \<open>
  C9. What a call returns (the record, or the exception) depends only on the arguments
  and on what the kernel holds for the descriptor: two worlds that agree there give the
  same result, whatever \<open>errno\<close> and the log of earlier calls are. A call leaves the
  kernel's state as it was, so calling again right after gives the same result.
\<close>

theorem repeated_call_same_result:
  "(so_peercred w' (Int32Value (As_Number (info ! 0)))
        = so_peercred w (Int32Value (As_Number (info ! 0)))
      \<and> local_peercred w' (Int32Value (As_Number (info ! 0)))
        = local_peercred w (Int32Value (As_Number (info ! 0)))
      \<and> local_peerepid w' (Int32Value (As_Number (info ! 0)))
        = local_peerepid w (Int32Value (As_Number (info ! 0)))
      \<longrightarrow> fst (GetPeerCred plat info w') = fst (GetPeerCred plat info w))
   \<and> fst (GetPeerCred plat info (snd (GetPeerCred plat info w)))
       = fst (GetPeerCred plat info w)"
proof -
  have again: "fst (GetPeerCred plat info (snd (GetPeerCred plat info w)))
       = fst (GetPeerCred plat info w)"
    by (rule result_depends_on_kernel) (simp_all add: GetPeerCred_kernel_unchanged)
  with result_depends_on_kernel [of w' info w plat] show ?thesis by blast
qed

theorem repeated_call_same_result_witness:
  "so_peercred world_connected_later (Int32Value (As_Number ([Napi_Number (Finite 5)] ! 0)))
     = so_peercred world_connected (Int32Value (As_Number ([Napi_Number (Finite 5)] ! 0)))
   \<and> local_peercred world_connected_later (Int32Value (As_Number ([Napi_Number (Finite 5)] ! 0)))
     = local_peercred world_connected (Int32Value (As_Number ([Napi_Number (Finite 5)] ! 0)))
   \<and> local_peerepid world_connected_later (Int32Value (As_Number ([Napi_Number (Finite 5)] ! 0)))
     = local_peerepid world_connected (Int32Value (As_Number ([Napi_Number (Finite 5)] ! 0)))
   \<and> world_connected_later \<noteq> world_connected
   \<and> fst (GetPeerCred Apple [Napi_Number (Finite 5)] world_connected_later)
     = fst (GetPeerCred Apple [Napi_Number (Finite 5)] world_connected)
   \<and> fst (GetPeerCred Apple [Napi_Number (Finite 5)]
            (snd (GetPeerCred Apple [Napi_Number (Finite 5)] world_connected)))
     = fst (GetPeerCred Apple [Napi_Number (Finite 5)] world_connected)
   \<and> fst (GetPeerCred Apple [Napi_Number (Finite 5)] world_connected)
     = Inr (Napi_Object
         [(''pid'', Napi_Number (Finite 4242)),
          (''uid'', Napi_Number (Finite 1000)),
          (''gid'', Napi_Number (Finite 20))])
   \<and> fst (GetPeerCred Linux [Napi_Number (Finite 5)]
            (snd (GetPeerCred Linux [Napi_Number (Finite 5)] world_closed)))
     = fst (GetPeerCred Linux [Napi_Number (Finite 5)] world_closed)
   \<and> fst (GetPeerCred Linux [Napi_Number (Finite 5)] world_closed)
     = Inl (Error ''getsockopt(SO_PEERCRED) failed'')"
proof -
  have k1: "so_peercred world_connected_later = so_peercred world_connected"
    and k2: "local_peercred world_connected_later = local_peercred world_connected"
    and k3: "local_peerepid world_connected_later = local_peerepid world_connected"
    by (simp_all add: world_connected_later_def)
  have differ: "world_connected_later \<noteq> world_connected"
  proof
    assume "world_connected_later = world_connected"
    then have "syscalls world_connected_later = syscalls world_connected" by simp
    then show False by (simp add: world_connected_later_def world_connected_def)
  qed
  have run1: "fst (GetPeerCred Apple [Napi_Number (Finite 5)] world_connected)
     = Inr (Napi_Object
         [(''pid'', Napi_Number (Finite 4242)),
          (''uid'', Napi_Number (Finite 1000)),
          (''gid'', Napi_Number (Finite 20))])"
    by code_simp
  have run2: "fst (GetPeerCred Linux [Napi_Number (Finite 5)] world_closed)
     = Inl (Error ''getsockopt(SO_PEERCRED) failed'')"
    by code_simp
  show ?thesis
    using repeated_call_same_result
        [of world_connected_later "[Napi_Number (Finite 5)]" world_connected Apple]
      repeated_call_same_result
        [of world_closed "[Napi_Number (Finite 5)]" world_closed Linux]
      k1 k2 k3 differ run1 run2
    by simp
qed

subsection \<open>What a failed query reports\<close>

text \<open>
  C3, as the specification states it: the error thrown for a failed mandatory query
  carries the cause the kernel gave. It does not. A closed descriptor (\<open>EBADF\<close>) and a
  descriptor that is not a socket (\<open>ENOTSOCK\<close>) give the same exception, on both
  platforms: a kind and a message.
\<close>

theorem query_failure_hides_cause:
  "so_peercred world_closed (Int32Value (Finite 5)) = Failed EBADF
   \<and> so_peercred world_not_socket (Int32Value (Finite 5)) = Failed ENOTSOCK
   \<and> local_peercred world_closed (Int32Value (Finite 5)) = Failed EBADF
   \<and> local_peercred world_not_socket (Int32Value (Finite 5)) = Failed ENOTSOCK
   \<and> EBADF \<noteq> ENOTSOCK
   \<and> fst (GetPeerCred Linux [Napi_Number (Finite 5)] world_closed)
       = Inl (Error ''getsockopt(SO_PEERCRED) failed'')
   \<and> fst (GetPeerCred Linux [Napi_Number (Finite 5)] world_not_socket)
       = Inl (Error ''getsockopt(SO_PEERCRED) failed'')
   \<and> fst (GetPeerCred Apple [Napi_Number (Finite 5)] world_closed)
       = Inl (Error ''getsockopt(LOCAL_PEERCRED) failed'')
   \<and> fst (GetPeerCred Apple [Napi_Number (Finite 5)] world_not_socket)
       = Inl (Error ''getsockopt(LOCAL_PEERCRED) failed'')"
proof -
  have c1: "so_peercred world_closed (Int32Value (Finite 5)) = Failed EBADF"
    and c2: "local_peercred world_closed (Int32Value (Finite 5)) = Failed EBADF"
    by (simp_all add: world_closed_def)
  have n1: "so_peercred world_not_socket (Int32Value (Finite 5)) = Failed ENOTSOCK"
    and n2: "local_peercred world_not_socket (Int32Value (Finite 5)) = Failed ENOTSOCK"
    by (simp_all add: Int32Value_5 world_not_socket_def del: Int32Value.simps)
  have distinct: "EBADF \<noteq> ENOTSOCK"
    by (simp add: EBADF_def ENOTSOCK_def)
  have "fst (GetPeerCred Linux [Napi_Number (Finite 5)] world_closed)
       = Inl (Error ''getsockopt(SO_PEERCRED) failed'')"
    by (simp add: GetPeerCred_numeric linux_failed [OF c1] del: Int32Value.simps)
  moreover have "fst (GetPeerCred Linux [Napi_Number (Finite 5)] world_not_socket)
       = Inl (Error ''getsockopt(SO_PEERCRED) failed'')"
    by (simp add: GetPeerCred_numeric linux_failed [OF n1] del: Int32Value.simps)
  moreover have "fst (GetPeerCred Apple [Napi_Number (Finite 5)] world_closed)
       = Inl (Error ''getsockopt(LOCAL_PEERCRED) failed'')"
    by (simp add: GetPeerCred_numeric apple_failed [OF c2] del: Int32Value.simps)
  moreover have "fst (GetPeerCred Apple [Napi_Number (Finite 5)] world_not_socket)
       = Inl (Error ''getsockopt(LOCAL_PEERCRED) failed'')"
    by (simp add: GetPeerCred_numeric apple_failed [OF n2] del: Int32Value.simps)
  ultimately show ?thesis using c1 c2 n1 n2 distinct by blast
qed

text \<open>
  C3, amended: when the mandatory query fails, for whatever cause \<open>e\<close>, the exception
  thrown is an \<open>Error\<close> with a fixed message naming the query, "getsockopt(SO_PEERCRED)
  failed" on Linux and "getsockopt(LOCAL_PEERCRED) failed" on macOS. The cause is not
  part of it; it is left where the kernel put it, in \<open>errno\<close>.
\<close>

theorem query_failure_fixed_message:
  "(so_peercred w (Int32Value d) = Failed e \<longrightarrow>
      fst (GetPeerCred Linux (Napi_Number d # rest) w)
        = Inl (Error ''getsockopt(SO_PEERCRED) failed'')
      \<and> errno (snd (GetPeerCred Linux (Napi_Number d # rest) w)) = e)
   \<and> (local_peercred w (Int32Value d) = Failed e \<longrightarrow>
      fst (GetPeerCred Apple (Napi_Number d # rest) w)
        = Inl (Error ''getsockopt(LOCAL_PEERCRED) failed'')
      \<and> errno (snd (GetPeerCred Apple (Napi_Number d # rest) w)) = e)"
  by (simp add: GetPeerCred_numeric linux_failed apple_failed)

theorem query_failure_fixed_message_witness:
  "so_peercred world_not_socket (Int32Value (Finite 5)) = Failed ENOTSOCK
   \<and> fst (GetPeerCred Linux [Napi_Number (Finite 5)] world_not_socket)
       = Inl (Error ''getsockopt(SO_PEERCRED) failed'')
   \<and> errno (snd (GetPeerCred Linux [Napi_Number (Finite 5)] world_not_socket)) = ENOTSOCK
   \<and> local_peercred world_not_socket (Int32Value (Finite 5)) = Failed ENOTSOCK
   \<and> fst (GetPeerCred Apple [Napi_Number (Finite 5)] world_not_socket)
       = Inl (Error ''getsockopt(LOCAL_PEERCRED) failed'')
   \<and> errno (snd (GetPeerCred Apple [Napi_Number (Finite 5)] world_not_socket)) = ENOTSOCK"
proof -
  have n1: "so_peercred world_not_socket (Int32Value (Finite 5)) = Failed ENOTSOCK"
    and n2: "local_peercred world_not_socket (Int32Value (Finite 5)) = Failed ENOTSOCK"
    by (simp_all add: Int32Value_5 world_not_socket_def del: Int32Value.simps)
  show ?thesis
    using query_failure_fixed_message [of world_not_socket "Finite 5" ENOTSOCK "[]"] n1 n2
    by blast
qed

subsection \<open>Any other platform\<close>

text \<open>
  C6, as the specification states it: on any other platform every call fails with
  UnsupportedPlatform. The argument check comes before the platform branches, so a call
  without a descriptor fails there as everywhere else, with the \<open>TypeError\<close>.
\<close>

theorem other_platform_invalid_argument:
  "fst (GetPeerCred Other [] world_connected) = Inl (TypeError ''Expected fd as number'')
   \<and> fst (GetPeerCred Other [] world_connected) \<noteq> Inl (Error ''Unsupported platform'')
   \<and> fst (GetPeerCred Other [Napi_String ''5''] world_connected)
       = Inl (TypeError ''Expected fd as number'')"
  by (simp add: GetPeerCred_invalid)

text \<open>
  C6, amended: on any other platform, every call with a numeric descriptor argument
  throws the \<open>Error\<close> "Unsupported platform"; every call whose descriptor argument is
  absent or not a number throws the \<open>TypeError\<close> "Expected fd as number" of the argument
  check, as on every platform; and every call, whatever its arguments, fails with one of
  the two, issues no system call and leaves the world as it was.
\<close>

theorem other_platform_unsupported:
  "fst (GetPeerCred Other (Napi_Number d # rest) w) = Inl (Error ''Unsupported platform'')
   \<and> (info = [] \<or> \<not> IsNumber (info ! 0) \<longrightarrow>
        fst (GetPeerCred Other info w) = Inl (TypeError ''Expected fd as number''))
   \<and> (fst (GetPeerCred Other info w) = Inl (Error ''Unsupported platform'')
        \<or> fst (GetPeerCred Other info w) = Inl (TypeError ''Expected fd as number''))
   \<and> issued w (GetPeerCred Other info w) = []
   \<and> snd (GetPeerCred Other info w) = w"
proof -
  have numeric: "GetPeerCred Other (Napi_Number d # rest) w
      = (Inl (Error ''Unsupported platform''), w)"
    by (simp add: GetPeerCred_numeric GetPeerCred_other_def)
  have invalid: "info = [] \<or> \<not> IsNumber (info ! 0) \<longrightarrow>
      fst (GetPeerCred Other info w) = Inl (TypeError ''Expected fd as number'')"
  proof
    assume bad: "info = [] \<or> \<not> IsNumber (info ! 0)"
    show "fst (GetPeerCred Other info w) = Inl (TypeError ''Expected fd as number'')"
      by (simp add: GetPeerCred_invalid [OF bad])
  qed
  have any: "GetPeerCred Other info w = (Inl (Error ''Unsupported platform''), w)
      \<or> GetPeerCred Other info w = (Inl (TypeError ''Expected fd as number''), w)"
    by (simp add: GetPeerCred_def GetPeerCred_other_def Let_def)
  from any have log: "issued w (GetPeerCred Other info w) = []"
    by (auto simp: issued_def)
  from any have result: "fst (GetPeerCred Other info w) = Inl (Error ''Unsupported platform'')
      \<or> fst (GetPeerCred Other info w) = Inl (TypeError ''Expected fd as number'')"
    by auto
  from any have unchanged: "snd (GetPeerCred Other info w) = w"
    by auto
  from numeric have first: "fst (GetPeerCred Other (Napi_Number d # rest) w)
      = Inl (Error ''Unsupported platform'')"
    by simp
  from first invalid result log unchanged show ?thesis by blast
qed

theorem other_platform_unsupported_witness:
  "fst (GetPeerCred Other [Napi_Number (Finite 5)] world_connected)
     = Inl (Error ''Unsupported platform'')
   \<and> issued world_connected (GetPeerCred Other [Napi_Number (Finite 5)] world_connected) = []
   \<and> snd (GetPeerCred Other [Napi_Number (Finite 5)] world_connected) = world_connected
   \<and> \<not> IsNumber ([Napi_Null] ! 0)
   \<and> fst (GetPeerCred Other [Napi_Null] world_connected)
       = Inl (TypeError ''Expected fd as number'')
   \<and> issued world_connected (GetPeerCred Other [Napi_Null] world_connected) = []
   \<and> fst (GetPeerCred Other [] world_connected) = Inl (TypeError ''Expected fd as number'')
   \<and> issued world_connected (GetPeerCred Other [] world_connected) = []"
proof -
  have h1: "[Napi_Null] = [] \<or> \<not> IsNumber ([Napi_Null] ! 0)" by simp
  have h2: "([] :: napi_value list) = [] \<or> \<not> IsNumber ([] ! 0)" by simp
  have n: "\<not> IsNumber ([Napi_Null] ! 0)" by simp
  have a: "fst (GetPeerCred Other [Napi_Number (Finite 5)] world_connected)
        = Inl (Error ''Unsupported platform'')
      \<and> issued world_connected (GetPeerCred Other [Napi_Number (Finite 5)] world_connected) = []
      \<and> snd (GetPeerCred Other [Napi_Number (Finite 5)] world_connected) = world_connected"
    using other_platform_unsupported
      [of "Finite 5" "[]" world_connected "[Napi_Number (Finite 5)]"]
    by blast
  have b: "fst (GetPeerCred Other [Napi_Null] world_connected)
        = Inl (TypeError ''Expected fd as number'')
      \<and> issued world_connected (GetPeerCred Other [Napi_Null] world_connected) = []"
    using other_platform_unsupported [of "Finite 5" "[]" world_connected "[Napi_Null]"] h1
    by blast
  have c: "fst (GetPeerCred Other [] world_connected)
        = Inl (TypeError ''Expected fd as number'')
      \<and> issued world_connected (GetPeerCred Other [] world_connected) = []"
    using other_platform_unsupported [of "Finite 5" "[]" world_connected "[]"] h2
    by blast
  from a b c n show ?thesis by blast
qed

end
